theory Spec2Isabelle
  imports Main "HOL-Library.Word"
begin

section \<open>Client sessions (client/session.go)\<close>

subsection \<open>Data model\<close>

type_synonym uint64 = "64 word"

text \<open>The struct \<^verbatim>\<open>Session\<close>: four \<^verbatim>\<open>uint64\<close> fields. A Go composite literal
  that omits \<^verbatim>\<open>RespondedTo\<close> leaves it at the zero value.\<close>

record Session =
  ClusterID :: uint64
  ClientID :: uint64
  SeriesID :: uint64
  RespondedTo :: uint64

text \<open>The constants of the package; \<^verbatim>\<open>math.MaxUint64\<close> is \<open>2^64 - 1\<close>.\<close>

definition MaxUint64 :: uint64 where
  "MaxUint64 = 18446744073709551615"

definition NotSessionManagedClientID :: uint64 where
  "NotSessionManagedClientID = 0"

definition NoOPSeriesID :: uint64 where
  "NoOPSeriesID = 0"

definition SeriesIDForRegister :: uint64 where
  "SeriesIDForRegister = MaxUint64 - 1"

definition SeriesIDForUnregister :: uint64 where
  "SeriesIDForUnregister = MaxUint64"

definition SeriesIDFirstProposal :: uint64 where
  "SeriesIDFirstProposal = 1"

text \<open>Every \<^verbatim>\<open>panic\<close> of the file is a value; the constructor names follow the
  panic messages.\<close>

datatype fault =
    ClusterIDDoNotMatch
  | NotARegularSession
  | InvalidRespondedToSeriesID
  | RespondedToGreaterThanSeriesID

subsection \<open>The random source\<close>

text \<open>\<^verbatim>\<open>random.Source\<close> is an interface of another package with the one method
  \<^verbatim>\<open>Uint64()\<close>. A source is taken as a parameter: a step function on its internal
  state, giving the value drawn and the state afterwards.\<close>

type_synonym 's source = "'s \<Rightarrow> uint64 \<times> 's"

text \<open>The state of the source after \<open>n\<close> draws, and the value of draw number \<open>n\<close>
  (counted from 0).\<close>

primrec after_draws :: "'s source \<Rightarrow> 's \<Rightarrow> nat \<Rightarrow> 's" where
  "after_draws rng s 0 = s"
| "after_draws rng s (Suc n) = after_draws rng (snd (rng s)) n"

definition draw :: "'s source \<Rightarrow> 's \<Rightarrow> nat \<Rightarrow> uint64" where
  "draw rng s n = fst (rng (after_draws rng s n))"

text \<open>Two concrete sources: one that yields the same value for ever, and one that
  yields 0, 1, 2, ...\<close>

definition const_source :: "uint64 \<Rightarrow> unit source" where
  "const_source v s = (v, s)"

definition counter_source :: "nat source" where
  "counter_source n = (of_nat n, Suc n)"

subsection \<open>Constructors\<close>

text \<open>\<^verbatim>\<open>NewSession\<close> and \<^verbatim>\<open>NewNoOPSession\<close> loop until the source yields an id
  other than \<^verbatim>\<open>NotSessionManagedClientID\<close>. The loop has no bound, so the functions
  are partial: \<open>None\<close> is the run that never returns. The result carries the state
  of the source after the draws.\<close>

partial_function (option) NewSession ::
  "uint64 \<Rightarrow> 's source \<Rightarrow> 's \<Rightarrow> (Session \<times> 's) option" where
  "NewSession clusterID rng s =
     (case rng s of (cid, s') \<Rightarrow>
        if cid \<noteq> NotSessionManagedClientID
        then Some (\<lparr>ClusterID = clusterID, ClientID = cid,
                     SeriesID = NoOPSeriesID + 1, RespondedTo = 0\<rparr>, s')
        else NewSession clusterID rng s')"

partial_function (option) NewNoOPSession ::
  "uint64 \<Rightarrow> 's source \<Rightarrow> 's \<Rightarrow> (Session \<times> 's) option" where
  "NewNoOPSession clusterID rng s =
     (case rng s of (cid, s') \<Rightarrow>
        if cid \<noteq> NotSessionManagedClientID
        then Some (\<lparr>ClusterID = clusterID, ClientID = cid,
                     SeriesID = NoOPSeriesID, RespondedTo = 0\<rparr>, s')
        else NewNoOPSession clusterID rng s')"

subsection \<open>Methods\<close>

definition IsNoOPSession :: "Session \<Rightarrow> bool" where
  "IsNoOPSession cs = (SeriesID cs = NoOPSeriesID)"

definition ClusterIDMustMatch :: "Session \<Rightarrow> uint64 \<Rightarrow> fault + unit" where
  "ClusterIDMustMatch cs clusterID =
     (if ClusterID cs \<noteq> clusterID then Inl ClusterIDDoNotMatch else Inr ())"

definition assertRegularSession :: "Session \<Rightarrow> fault + unit" where
  "assertRegularSession cs =
     (if ClientID cs = NotSessionManagedClientID \<or> SeriesID cs = NoOPSeriesID
      then Inl NotARegularSession else Inr ())"

definition PrepareForRegister :: "Session \<Rightarrow> fault + Session" where
  "PrepareForRegister cs =
     (case assertRegularSession cs of
        Inl e \<Rightarrow> Inl e
      | Inr _ \<Rightarrow> Inr (cs\<lparr>SeriesID := SeriesIDForRegister\<rparr>))"

definition PrepareForUnregister :: "Session \<Rightarrow> fault + Session" where
  "PrepareForUnregister cs =
     (case assertRegularSession cs of
        Inl e \<Rightarrow> Inl e
      | Inr _ \<Rightarrow> Inr (cs\<lparr>SeriesID := SeriesIDForUnregister\<rparr>))"

definition PrepareForPropose :: "Session \<Rightarrow> fault + Session" where
  "PrepareForPropose cs =
     (case assertRegularSession cs of
        Inl e \<Rightarrow> Inl e
      | Inr _ \<Rightarrow> Inr (cs\<lparr>SeriesID := SeriesIDFirstProposal\<rparr>))"

text \<open>\<^verbatim>\<open>cs.RespondedTo = cs.SeriesID; cs.SeriesID++\<close>: the increment is on a
  \<^verbatim>\<open>uint64\<close> and wraps, as \<open>+\<close> on words does.\<close>

definition ProposalCompleted :: "Session \<Rightarrow> fault + Session" where
  "ProposalCompleted cs =
     (case assertRegularSession cs of
        Inl e \<Rightarrow> Inl e
      | Inr _ \<Rightarrow>
          if SeriesID cs = RespondedTo cs + 1
          then Inr (cs\<lparr>RespondedTo := SeriesID cs, SeriesID := SeriesID cs + 1\<rparr>)
          else Inl InvalidRespondedToSeriesID)"

definition ValidForProposal :: "Session \<Rightarrow> uint64 \<Rightarrow> fault + bool" where
  "ValidForProposal cs clusterID =
     (if SeriesID cs = NoOPSeriesID \<and> ClientID cs = NotSessionManagedClientID
      then Inr False
      else if ClusterID cs \<noteq> clusterID then Inr False
      else if ClientID cs = NotSessionManagedClientID then Inr False
      else if SeriesID cs = SeriesIDForRegister \<or> SeriesID cs = SeriesIDForUnregister
      then Inr False
      else if RespondedTo cs > SeriesID cs then Inl RespondedToGreaterThanSeriesID
      else Inr True)"

definition ValidForSessionOp :: "Session \<Rightarrow> uint64 \<Rightarrow> bool" where
  "ValidForSessionOp cs clusterID =
     (if ClusterID cs \<noteq> clusterID then False
      else if ClientID cs = NotSessionManagedClientID \<or> SeriesID cs = NoOPSeriesID
      then False
      else if SeriesID cs = SeriesIDForRegister \<or> SeriesID cs = SeriesIDForUnregister
      then True
      else False)"

text \<open>The invariant of the data model: \<open>RespondedTo \<le> SeriesID\<close>, as unsigned
  64-bit values.\<close>

definition session_inv :: "Session \<Rightarrow> bool" where
  "session_inv cs = (RespondedTo cs \<le> SeriesID cs)"

section \<open>Auxiliary facts\<close>

lemmas session_consts =
  MaxUint64_def NotSessionManagedClientID_def NoOPSeriesID_def
  SeriesIDForRegister_def SeriesIDForUnregister_def SeriesIDFirstProposal_def

lemmas session_ops =
  assertRegularSession_def PrepareForRegister_def PrepareForUnregister_def
  PrepareForPropose_def ProposalCompleted_def

lemma MaxUint64_minus_one: "MaxUint64 = - 1"
  by (simp add: MaxUint64_def)

lemma le_MaxUint64: "x \<le> MaxUint64"
  by (simp add: MaxUint64_minus_one)

lemma le_succ_iff: "(x \<le> x + 1) = (x \<noteq> MaxUint64)" for x :: uint64
  using inc_less_eq_self_iff_eq [of x] by (auto simp: MaxUint64_minus_one)

lemma draw_0: "draw rng s 0 = fst (rng s)"
  by (simp add: draw_def)

lemma draw_Suc: "draw rng s (Suc n) = draw rng (snd (rng s)) n"
  by (simp add: draw_def)

subsection \<open>The redraw loops\<close>

text \<open>A constructor that returns has seen a non-zero draw.\<close>

lemma NewSession_Some_draw:
  assumes "NewSession c rng s = Some y"
  shows "\<exists>n. draw rng s n \<noteq> 0"
proof (rule NewSession.raw_induct
    [where P = "\<lambda>c rng s y. \<exists>n. draw rng s n \<noteq> 0", OF _ assms])
  fix f :: "uint64 \<Rightarrow> 'a source \<Rightarrow> 'a \<Rightarrow> (Session \<times> 'a) option" and c rng s y
  assume IH: "\<And>c rng s y. f c rng s = Some y \<Longrightarrow> \<exists>n. draw rng s n \<noteq> 0"
    and body: "(case rng s of (cid, s') \<Rightarrow>
        if cid \<noteq> NotSessionManagedClientID
        then Some (\<lparr>ClusterID = c, ClientID = cid,
                     SeriesID = NoOPSeriesID + 1, RespondedTo = 0\<rparr>, s')
        else f c rng s') = Some y"
  obtain cid s' where r: "rng s = (cid, s')" by (cases "rng s")
  show "\<exists>n. draw rng s n \<noteq> 0"
  proof (cases "cid = 0")
    case True
    with body r have "f c rng s' = Some y"
      by (simp add: NotSessionManagedClientID_def)
    then obtain n where "draw rng s' n \<noteq> 0" using IH by blast
    with r have "draw rng s (Suc n) \<noteq> 0" by (simp add: draw_Suc)
    then show ?thesis ..
  next
    case False
    with r have "draw rng s 0 \<noteq> 0" by (simp add: draw_0)
    then show ?thesis ..
  qed
qed

lemma NewNoOPSession_Some_draw:
  assumes "NewNoOPSession c rng s = Some y"
  shows "\<exists>n. draw rng s n \<noteq> 0"
proof (rule NewNoOPSession.raw_induct
    [where P = "\<lambda>c rng s y. \<exists>n. draw rng s n \<noteq> 0", OF _ assms])
  fix f :: "uint64 \<Rightarrow> 'a source \<Rightarrow> 'a \<Rightarrow> (Session \<times> 'a) option" and c rng s y
  assume IH: "\<And>c rng s y. f c rng s = Some y \<Longrightarrow> \<exists>n. draw rng s n \<noteq> 0"
    and body: "(case rng s of (cid, s') \<Rightarrow>
        if cid \<noteq> NotSessionManagedClientID
        then Some (\<lparr>ClusterID = c, ClientID = cid,
                     SeriesID = NoOPSeriesID, RespondedTo = 0\<rparr>, s')
        else f c rng s') = Some y"
  obtain cid s' where r: "rng s = (cid, s')" by (cases "rng s")
  show "\<exists>n. draw rng s n \<noteq> 0"
  proof (cases "cid = 0")
    case True
    with body r have "f c rng s' = Some y"
      by (simp add: NotSessionManagedClientID_def)
    then obtain n where "draw rng s' n \<noteq> 0" using IH by blast
    with r have "draw rng s (Suc n) \<noteq> 0" by (simp add: draw_Suc)
    then show ?thesis ..
  next
    case False
    with r have "draw rng s 0 \<noteq> 0" by (simp add: draw_0)
    then show ?thesis ..
  qed
qed

text \<open>When draw number \<open>n\<close> is the first non-zero one, the constructor returns
  after \<open>n + 1\<close> draws with that value as the client id.\<close>

lemma NewSession_first:
  "draw rng s n \<noteq> 0 \<Longrightarrow> (\<forall>m<n. draw rng s m = 0) \<Longrightarrow>
   NewSession c rng s =
     Some (\<lparr>ClusterID = c, ClientID = draw rng s n, SeriesID = 1, RespondedTo = 0\<rparr>,
           after_draws rng s (Suc n))"
proof (induction n arbitrary: s)
  case 0
  then show ?case
    by (cases "rng s") (simp add: NewSession.simps [of c rng s] draw_0 session_consts)
next
  case (Suc n)
  from Suc.prems(2) have z: "fst (rng s) = 0"
    by (auto simp: draw_0 dest: spec [of _ 0])
  have "\<forall>m<n. draw rng (snd (rng s)) m = 0"
    using Suc.prems(2) by (auto simp: draw_Suc [symmetric])
  with Suc.IH [of "snd (rng s)"] Suc.prems(1)
  have "NewSession c rng (snd (rng s)) =
     Some (\<lparr>ClusterID = c, ClientID = draw rng s (Suc n), SeriesID = 1, RespondedTo = 0\<rparr>,
           after_draws rng s (Suc (Suc n)))"
    by (simp add: draw_Suc)
  with z show ?case
    by (cases "rng s") (simp add: NewSession.simps [of c rng s] session_consts)
qed

lemma NewNoOPSession_first:
  "draw rng s n \<noteq> 0 \<Longrightarrow> (\<forall>m<n. draw rng s m = 0) \<Longrightarrow>
   NewNoOPSession c rng s =
     Some (\<lparr>ClusterID = c, ClientID = draw rng s n, SeriesID = 0, RespondedTo = 0\<rparr>,
           after_draws rng s (Suc n))"
proof (induction n arbitrary: s)
  case 0
  then show ?case
    by (cases "rng s") (simp add: NewNoOPSession.simps [of c rng s] draw_0 session_consts)
next
  case (Suc n)
  from Suc.prems(2) have z: "fst (rng s) = 0"
    by (auto simp: draw_0 dest: spec [of _ 0])
  have "\<forall>m<n. draw rng (snd (rng s)) m = 0"
    using Suc.prems(2) by (auto simp: draw_Suc [symmetric])
  with Suc.IH [of "snd (rng s)"] Suc.prems(1)
  have "NewNoOPSession c rng (snd (rng s)) =
     Some (\<lparr>ClusterID = c, ClientID = draw rng s (Suc n), SeriesID = 0, RespondedTo = 0\<rparr>,
           after_draws rng s (Suc (Suc n)))"
    by (simp add: draw_Suc)
  with z show ?case
    by (cases "rng s") (simp add: NewNoOPSession.simps [of c rng s] session_consts)
qed

text \<open>Hence a source that yields a non-zero value at some draw makes the loop end, at
  the least such draw.\<close>

lemma first_nonzero_draw:
  assumes "draw rng s n \<noteq> 0"
  obtains k where "k \<le> n" "draw rng s k \<noteq> 0" "\<forall>m<k. draw rng s m = 0"
proof -
  let ?k = "LEAST k. draw rng s k \<noteq> 0"
  have "?k \<le> n" using assms by (rule Least_le)
  moreover have "draw rng s ?k \<noteq> 0" using assms by (rule LeastI)
  moreover have "\<forall>m<?k. draw rng s m = 0" using not_less_Least by blast
  ultimately show thesis using that by blast
qed

lemma NewSession_returns:
  assumes "draw rng s n \<noteq> 0"
  shows "\<exists>k\<le>n. draw rng s k \<noteq> 0 \<and> NewSession c rng s =
     Some (\<lparr>ClusterID = c, ClientID = draw rng s k, SeriesID = 1, RespondedTo = 0\<rparr>,
           after_draws rng s (Suc k))"
proof -
  from assms obtain k
    where k: "k \<le> n" "draw rng s k \<noteq> 0" "\<forall>m<k. draw rng s m = 0"
    by (rule first_nonzero_draw)
  from NewSession_first [OF k(2,3), of c] k(1,2) show ?thesis by blast
qed

lemma NewNoOPSession_returns:
  assumes "draw rng s n \<noteq> 0"
  shows "\<exists>k\<le>n. draw rng s k \<noteq> 0 \<and> NewNoOPSession c rng s =
     Some (\<lparr>ClusterID = c, ClientID = draw rng s k, SeriesID = 0, RespondedTo = 0\<rparr>,
           after_draws rng s (Suc k))"
proof -
  from assms obtain k
    where k: "k \<le> n" "draw rng s k \<noteq> 0" "\<forall>m<k. draw rng s m = 0"
    by (rule first_nonzero_draw)
  from NewNoOPSession_first [OF k(2,3), of c] k(1,2) show ?thesis by blast
qed

lemma NewSession_fields:
  assumes "NewSession c rng s = Some (a, s')"
  shows "ClusterID a = c \<and> ClientID a \<noteq> 0 \<and> SeriesID a = 1 \<and> RespondedTo a = 0"
proof -
  from NewSession_Some_draw [OF assms] obtain n where "draw rng s n \<noteq> 0" ..
  from NewSession_returns [OF this, of c] assms show ?thesis by auto
qed

lemma NewNoOPSession_fields:
  assumes "NewNoOPSession c rng s = Some (a, s')"
  shows "ClusterID a = c \<and> ClientID a \<noteq> 0 \<and> SeriesID a = 0 \<and> RespondedTo a = 0"
proof -
  from NewNoOPSession_Some_draw [OF assms] obtain n where "draw rng s n \<noteq> 0" ..
  from NewNoOPSession_returns [OF this, of c] assms show ?thesis by auto
qed

text \<open>The constant source yields its value at every draw.\<close>

lemma draw_const_source: "draw (const_source v) s n = v"
proof -
  have "after_draws (const_source v) s n = s" for s
    by (induction n arbitrary: s) (simp_all add: const_source_def)
  then show ?thesis by (simp add: draw_def const_source_def)
qed

section \<open>Completing proposals\<close>

text \<open>C1, as the claim states its scenario. For the session with \<open>ClientID = 42\<close>,
  \<open>SeriesID = 1\<close>, \<open>RespondedTo = 0\<close> the first call of \<^verbatim>\<open>ProposalCompleted\<close> yields
  \<open>RespondedTo = 1\<close>, \<open>SeriesID = 2\<close>. The claim says that a second call with no
  \<^verbatim>\<open>PrepareForPropose\<close> in between must fault. It does not: the first call leaves
  \<open>SeriesID = RespondedTo + 1\<close>, which is what the second call requires, and the
  second call yields \<open>RespondedTo = 2\<close>, \<open>SeriesID = 3\<close>.\<close>

theorem ProposalCompleted_again_counterexample:
  "ProposalCompleted \<lparr>ClusterID = 1, ClientID = 42, SeriesID = 1, RespondedTo = 0\<rparr>
     = Inr \<lparr>ClusterID = 1, ClientID = 42, SeriesID = 2, RespondedTo = 1\<rparr> \<and>
   ProposalCompleted \<lparr>ClusterID = 1, ClientID = 42, SeriesID = 2, RespondedTo = 1\<rparr>
     = Inr \<lparr>ClusterID = 1, ClientID = 42, SeriesID = 3, RespondedTo = 2\<rparr>"
  by (simp add: session_ops session_consts)

text \<open>C1, amended. \<^verbatim>\<open>ProposalCompleted\<close> faults on a session that is not regular;
  on a regular session it faults unless \<open>SeriesID = RespondedTo + 1\<close>, and otherwise
  sets \<open>RespondedTo\<close> to \<open>SeriesID\<close> and then increments \<open>SeriesID\<close>. For the session
  with \<open>ClientID = 42\<close>, \<open>SeriesID = 1\<close>, \<open>RespondedTo = 0\<close> (of any cluster) one call
  yields \<open>RespondedTo = 1\<close>, \<open>SeriesID = 2\<close>, and calling it again with no
  \<^verbatim>\<open>PrepareForPropose\<close> in between does not fault: it yields \<open>RespondedTo = 2\<close>,
  \<open>SeriesID = 3\<close>.\<close>

theorem ProposalCompleted_sequence:
  "(ClientID cs = NotSessionManagedClientID \<or> SeriesID cs = NoOPSeriesID \<longrightarrow>
      ProposalCompleted cs = Inl NotARegularSession) \<and>
   (ClientID cs \<noteq> NotSessionManagedClientID \<and> SeriesID cs \<noteq> NoOPSeriesID \<and>
    SeriesID cs \<noteq> RespondedTo cs + 1 \<longrightarrow>
      ProposalCompleted cs = Inl InvalidRespondedToSeriesID) \<and>
   (ClientID cs \<noteq> NotSessionManagedClientID \<and> SeriesID cs \<noteq> NoOPSeriesID \<and>
    SeriesID cs = RespondedTo cs + 1 \<longrightarrow>
      ProposalCompleted cs =
        Inr (cs\<lparr>RespondedTo := SeriesID cs, SeriesID := SeriesID cs + 1\<rparr>)) \<and>
   ProposalCompleted \<lparr>ClusterID = g, ClientID = 42, SeriesID = 1, RespondedTo = 0\<rparr>
     = Inr \<lparr>ClusterID = g, ClientID = 42, SeriesID = 2, RespondedTo = 1\<rparr> \<and>
   ProposalCompleted \<lparr>ClusterID = g, ClientID = 42, SeriesID = 2, RespondedTo = 1\<rparr>
     = Inr \<lparr>ClusterID = g, ClientID = 42, SeriesID = 3, RespondedTo = 2\<rparr>"
  by (simp add: session_ops session_consts)

theorem ProposalCompleted_sequence_witness:
  "ProposalCompleted \<lparr>ClusterID = 1, ClientID = 0, SeriesID = 1, RespondedTo = 0\<rparr>
     = Inl NotARegularSession \<and>
   ProposalCompleted \<lparr>ClusterID = 1, ClientID = 42, SeriesID = 5, RespondedTo = 0\<rparr>
     = Inl InvalidRespondedToSeriesID \<and>
   ProposalCompleted \<lparr>ClusterID = 1, ClientID = 42, SeriesID = 6, RespondedTo = 5\<rparr>
     = Inr \<lparr>ClusterID = 1, ClientID = 42, SeriesID = 7, RespondedTo = 6\<rparr>"
  using
    ProposalCompleted_sequence
      [of "\<lparr>ClusterID = 1, ClientID = 0, SeriesID = 1, RespondedTo = 0\<rparr>"]
    ProposalCompleted_sequence
      [of "\<lparr>ClusterID = 1, ClientID = 42, SeriesID = 5, RespondedTo = 0\<rparr>"]
    ProposalCompleted_sequence
      [of "\<lparr>ClusterID = 1, ClientID = 42, SeriesID = 6, RespondedTo = 5\<rparr>"]
  by (simp add: session_consts)

text \<open>What does make the second call fault is the \<^verbatim>\<open>PrepareForPropose\<close> in between:
  it resets \<open>SeriesID\<close> to 1 and keeps \<open>RespondedTo\<close>, which the completed proposal
  has made non-zero.\<close>

lemma ProposalCompleted_after_PrepareForPropose:
  assumes "ProposalCompleted cs = Inr cs'" and "PrepareForPropose cs' = Inr cs''"
  shows "ProposalCompleted cs'' = Inl InvalidRespondedToSeriesID"
  using assms
  by (auto simp: session_ops session_consts add.commute split: if_splits)

section \<open>Preparing a session\<close>

text \<open>C4. \<^verbatim>\<open>PrepareForRegister\<close>, \<^verbatim>\<open>PrepareForUnregister\<close> and \<^verbatim>\<open>PrepareForPropose\<close>
  fault on a session that is not regular (\<open>ClientID\<close> the unmanaged sentinel, or
  \<open>SeriesID\<close> the NoOP sentinel). On a regular session they return a session whose
  \<open>SeriesID\<close> is the Register sentinel, the Unregister sentinel and the first-proposal
  value 1 respectively, and whose \<open>ClientID\<close>, \<open>ClusterID\<close> and \<open>RespondedTo\<close> are
  those of the argument.\<close>

theorem PrepareFor_regular:
  "(ClientID cs = NotSessionManagedClientID \<or> SeriesID cs = NoOPSeriesID \<longrightarrow>
      PrepareForRegister cs = Inl NotARegularSession \<and>
      PrepareForUnregister cs = Inl NotARegularSession \<and>
      PrepareForPropose cs = Inl NotARegularSession) \<and>
   (ClientID cs \<noteq> NotSessionManagedClientID \<and> SeriesID cs \<noteq> NoOPSeriesID \<longrightarrow>
      (\<exists>r u p.
         PrepareForRegister cs = Inr r \<and> SeriesID r = SeriesIDForRegister \<and>
         ClientID r = ClientID cs \<and> ClusterID r = ClusterID cs \<and>
         RespondedTo r = RespondedTo cs \<and>
         PrepareForUnregister cs = Inr u \<and> SeriesID u = SeriesIDForUnregister \<and>
         ClientID u = ClientID cs \<and> ClusterID u = ClusterID cs \<and>
         RespondedTo u = RespondedTo cs \<and>
         PrepareForPropose cs = Inr p \<and> SeriesID p = 1 \<and>
         ClientID p = ClientID cs \<and> ClusterID p = ClusterID cs \<and>
         RespondedTo p = RespondedTo cs))"
  by (simp add: session_ops session_consts)

theorem PrepareFor_regular_witness:
  "PrepareForRegister \<lparr>ClusterID = 1, ClientID = 0, SeriesID = 1, RespondedTo = 0\<rparr>
     = Inl NotARegularSession \<and>
   PrepareForPropose \<lparr>ClusterID = 1, ClientID = 42, SeriesID = 0, RespondedTo = 0\<rparr>
     = Inl NotARegularSession \<and>
   PrepareForRegister \<lparr>ClusterID = 1, ClientID = 42, SeriesID = 1, RespondedTo = 0\<rparr>
     = Inr \<lparr>ClusterID = 1, ClientID = 42, SeriesID = 18446744073709551614,
            RespondedTo = 0\<rparr> \<and>
   PrepareForUnregister \<lparr>ClusterID = 1, ClientID = 42, SeriesID = 1, RespondedTo = 0\<rparr>
     = Inr \<lparr>ClusterID = 1, ClientID = 42, SeriesID = 18446744073709551615,
            RespondedTo = 0\<rparr> \<and>
   PrepareForPropose
       \<lparr>ClusterID = 1, ClientID = 42, SeriesID = 18446744073709551614, RespondedTo = 0\<rparr>
     = Inr \<lparr>ClusterID = 1, ClientID = 42, SeriesID = 1, RespondedTo = 0\<rparr>"
  using
    PrepareFor_regular
      [of "\<lparr>ClusterID = 1, ClientID = 0, SeriesID = 1, RespondedTo = 0\<rparr>"]
    PrepareFor_regular
      [of "\<lparr>ClusterID = 1, ClientID = 42, SeriesID = 0, RespondedTo = 0\<rparr>"]
    PrepareFor_regular
      [of "\<lparr>ClusterID = 1, ClientID = 42, SeriesID = 1, RespondedTo = 0\<rparr>"]
    PrepareFor_regular
      [of "\<lparr>ClusterID = 1, ClientID = 42, SeriesID = 18446744073709551614,
            RespondedTo = 0\<rparr>"]
  by (auto simp: session_consts)

section \<open>The invariant \<open>RespondedTo \<le> SeriesID\<close>\<close>

text \<open>C2, as the claim states it: every operation that returns normally keeps the
  invariant. \<^verbatim>\<open>PrepareForPropose\<close> does not. On the regular session with
  \<open>SeriesID = 3\<close>, \<open>RespondedTo = 2\<close> (two proposals completed), which satisfies the
  invariant, it returns normally with \<open>SeriesID = 1\<close>, \<open>RespondedTo = 2\<close>.\<close>

theorem PrepareForPropose_inv_counterexample:
  "session_inv \<lparr>ClusterID = 1, ClientID = 42, SeriesID = 3, RespondedTo = 2\<rparr> \<and>
   PrepareForPropose \<lparr>ClusterID = 1, ClientID = 42, SeriesID = 3, RespondedTo = 2\<rparr>
     = Inr \<lparr>ClusterID = 1, ClientID = 42, SeriesID = 1, RespondedTo = 2\<rparr> \<and>
   \<not> session_inv \<lparr>ClusterID = 1, ClientID = 42, SeriesID = 1, RespondedTo = 2\<rparr>"
  by (simp add: session_inv_def session_ops session_consts word_le_nat_alt)

text \<open>C2, amended. The invariant holds of every session that \<^verbatim>\<open>NewSession\<close> or
  \<^verbatim>\<open>NewNoOPSession\<close> returns, and of every session that \<^verbatim>\<open>PrepareForUnregister\<close>
  returns. Of the other operations that return normally, \<^verbatim>\<open>PrepareForRegister\<close>
  yields it exactly when \<open>RespondedTo\<close> is at most the Register sentinel \<open>2^64 - 2\<close>,
  \<^verbatim>\<open>PrepareForPropose\<close> exactly when \<open>RespondedTo\<close> is at most 1, and
  \<^verbatim>\<open>ProposalCompleted\<close> exactly when \<open>SeriesID\<close> was not \<open>2^64 - 1\<close>, where the
  increment wraps to 0.\<close>

theorem session_inv_operations:
  "(NewSession clusterID rng s = Some (a, t) \<longrightarrow> session_inv a) \<and>
   (NewNoOPSession clusterID rng s = Some (b, t') \<longrightarrow> session_inv b) \<and>
   (PrepareForUnregister cs = Inr u \<longrightarrow> session_inv u) \<and>
   (PrepareForRegister cs = Inr r \<longrightarrow>
      session_inv r = (RespondedTo cs \<le> SeriesIDForRegister)) \<and>
   (PrepareForPropose cs = Inr p \<longrightarrow>
      session_inv p = (RespondedTo cs \<le> SeriesIDFirstProposal)) \<and>
   (ProposalCompleted cs = Inr d \<longrightarrow> session_inv d = (SeriesID cs \<noteq> MaxUint64))"
proof (intro conjI impI)
  assume "NewSession clusterID rng s = Some (a, t)"
  from NewSession_fields [OF this] show "session_inv a"
    by (simp add: session_inv_def)
next
  assume "NewNoOPSession clusterID rng s = Some (b, t')"
  from NewNoOPSession_fields [OF this] show "session_inv b"
    by (simp add: session_inv_def)
next
  assume "PrepareForUnregister cs = Inr u"
  then have "SeriesID u = MaxUint64"
    by (auto simp: session_ops SeriesIDForUnregister_def split: if_splits)
  then show "session_inv u"
    by (simp add: session_inv_def le_MaxUint64)
next
  assume "PrepareForRegister cs = Inr r"
  then show "session_inv r = (RespondedTo cs \<le> SeriesIDForRegister)"
    by (auto simp: session_ops session_inv_def split: if_splits)
next
  assume "PrepareForPropose cs = Inr p"
  then show "session_inv p = (RespondedTo cs \<le> SeriesIDFirstProposal)"
    by (auto simp: session_ops session_inv_def split: if_splits)
next
  assume "ProposalCompleted cs = Inr d"
  then have "RespondedTo d = SeriesID cs" and "SeriesID d = SeriesID cs + 1"
    by (auto simp: session_ops split: if_splits)
  then show "session_inv d = (SeriesID cs \<noteq> MaxUint64)"
    by (simp add: session_inv_def le_succ_iff)
qed

theorem session_inv_operations_witness:
  "session_inv \<lparr>ClusterID = 7, ClientID = 1, SeriesID = 1, RespondedTo = 0\<rparr> \<and>
   session_inv \<lparr>ClusterID = 7, ClientID = 1, SeriesID = 0, RespondedTo = 0\<rparr> \<and>
   session_inv
     \<lparr>ClusterID = 1, ClientID = 42, SeriesID = 18446744073709551615, RespondedTo = 2\<rparr> \<and>
   session_inv
     \<lparr>ClusterID = 1, ClientID = 42, SeriesID = 18446744073709551614, RespondedTo = 2\<rparr> \<and>
   \<not> session_inv \<lparr>ClusterID = 1, ClientID = 42, SeriesID = 1, RespondedTo = 2\<rparr> \<and>
   session_inv \<lparr>ClusterID = 1, ClientID = 42, SeriesID = 4, RespondedTo = 3\<rparr> \<and>
   \<not> session_inv
     \<lparr>ClusterID = 1, ClientID = 42, SeriesID = 0, RespondedTo = 18446744073709551615\<rparr>"
proof -
  let ?cs = "\<lparr>ClusterID = 1, ClientID = 42, SeriesID = 3, RespondedTo = 2\<rparr>"
  let ?top = "\<lparr>ClusterID = 1, ClientID = 42, SeriesID = 18446744073709551615,
                RespondedTo = 18446744073709551614\<rparr>"
  have new: "NewSession 7 counter_source 0 =
      Some (\<lparr>ClusterID = 7, ClientID = 1, SeriesID = 1, RespondedTo = 0\<rparr>, 2)"
    by (simp add: NewSession.simps counter_source_def session_consts)
  have noop: "NewNoOPSession 7 counter_source 0 =
      Some (\<lparr>ClusterID = 7, ClientID = 1, SeriesID = 0, RespondedTo = 0\<rparr>, 2)"
    by (simp add: NewNoOPSession.simps counter_source_def session_consts)
  have u: "PrepareForUnregister ?cs =
      Inr \<lparr>ClusterID = 1, ClientID = 42, SeriesID = 18446744073709551615, RespondedTo = 2\<rparr>"
    by (simp add: session_ops session_consts)
  have r: "PrepareForRegister ?cs =
      Inr \<lparr>ClusterID = 1, ClientID = 42, SeriesID = 18446744073709551614, RespondedTo = 2\<rparr>"
    by (simp add: session_ops session_consts)
  have p: "PrepareForPropose ?cs =
      Inr \<lparr>ClusterID = 1, ClientID = 42, SeriesID = 1, RespondedTo = 2\<rparr>"
    by (simp add: session_ops session_consts)
  have d: "ProposalCompleted ?cs =
      Inr \<lparr>ClusterID = 1, ClientID = 42, SeriesID = 4, RespondedTo = 3\<rparr>"
    by (simp add: session_ops session_consts)
  have w: "ProposalCompleted ?top =
      Inr \<lparr>ClusterID = 1, ClientID = 42, SeriesID = 0,
           RespondedTo = 18446744073709551615\<rparr>"
    by (simp add: session_ops session_consts)
  have le: "(2::uint64) \<le> 18446744073709551614" "\<not> (2::uint64) \<le> 1"
    by (simp_all add: word_le_nat_alt)
  note inst = session_inv_operations
    [where cs = ?cs and clusterID = 7 and rng = counter_source and s = 0]
  from inst new noop u r p d le
  have "session_inv \<lparr>ClusterID = 7, ClientID = 1, SeriesID = 1, RespondedTo = 0\<rparr> \<and>
   session_inv \<lparr>ClusterID = 7, ClientID = 1, SeriesID = 0, RespondedTo = 0\<rparr> \<and>
   session_inv
     \<lparr>ClusterID = 1, ClientID = 42, SeriesID = 18446744073709551615, RespondedTo = 2\<rparr> \<and>
   session_inv
     \<lparr>ClusterID = 1, ClientID = 42, SeriesID = 18446744073709551614, RespondedTo = 2\<rparr> \<and>
   \<not> session_inv \<lparr>ClusterID = 1, ClientID = 42, SeriesID = 1, RespondedTo = 2\<rparr> \<and>
   session_inv \<lparr>ClusterID = 1, ClientID = 42, SeriesID = 4, RespondedTo = 3\<rparr>"
    by (simp add: session_consts)
  moreover from w session_inv_operations
    [where cs = ?top and d = "\<lparr>ClusterID = 1, ClientID = 42, SeriesID = 0,
           RespondedTo = 18446744073709551615\<rparr>"]
  have "\<not> session_inv
     \<lparr>ClusterID = 1, ClientID = 42, SeriesID = 0, RespondedTo = 18446744073709551615\<rparr>"
    by (auto simp: session_consts)
  ultimately show ?thesis by simp
qed

section \<open>Validation\<close>

text \<open>C3, as the claim states it: \<^verbatim>\<open>ValidForProposal\<close> returns false for the NoOP
  sentinel, and true for a regular session of the right cluster with a \<open>SeriesID\<close> in
  the normal range. Neither holds. A NoOP session such as \<^verbatim>\<open>NewNoOPSession\<close> makes
  (\<open>SeriesID = 0\<close>, a non-zero \<open>ClientID\<close>, \<open>RespondedTo = 0\<close>) is valid for proposals,
  and a regular session with \<open>RespondedTo > SeriesID\<close> faults.\<close>

theorem ValidForProposal_NoOP_counterexample:
  "ValidForProposal \<lparr>ClusterID = 1, ClientID = 42, SeriesID = 0, RespondedTo = 0\<rparr> 1
     = Inr True \<and>
   ValidForProposal \<lparr>ClusterID = 1, ClientID = 42, SeriesID = 1, RespondedTo = 2\<rparr> 1
     = Inl RespondedToGreaterThanSeriesID"
  by (simp add: ValidForProposal_def session_consts word_less_nat_alt)

text \<open>C3, amended. \<^verbatim>\<open>ValidForProposal\<close> returns false whenever \<open>SeriesID\<close> is the
  Register or the Unregister sentinel. When \<open>SeriesID\<close> is the NoOP sentinel 0 it
  returns false if \<open>ClientID\<close> is the unmanaged sentinel or the cluster id differs,
  and true if \<open>ClientID\<close> is non-zero, the cluster id matches and \<open>RespondedTo\<close> is 0.
  It returns true for any \<open>SeriesID\<close> that is none of the three sentinels when the
  session is regular, its cluster id matches and \<open>RespondedTo \<le> SeriesID\<close>.\<close>

theorem ValidForProposal_sentinels:
  "(SeriesID cs = SeriesIDForRegister \<or> SeriesID cs = SeriesIDForUnregister \<longrightarrow>
      ValidForProposal cs g = Inr False) \<and>
   (SeriesID cs = NoOPSeriesID \<and>
    (ClientID cs = NotSessionManagedClientID \<or> ClusterID cs \<noteq> g) \<longrightarrow>
      ValidForProposal cs g = Inr False) \<and>
   (SeriesID cs = NoOPSeriesID \<and> ClientID cs \<noteq> NotSessionManagedClientID \<and>
    ClusterID cs = g \<and> RespondedTo cs = 0 \<longrightarrow>
      ValidForProposal cs g = Inr True) \<and>
   (ClientID cs \<noteq> NotSessionManagedClientID \<and> SeriesID cs \<noteq> NoOPSeriesID \<and>
    SeriesID cs \<noteq> SeriesIDForRegister \<and> SeriesID cs \<noteq> SeriesIDForUnregister \<and>
    ClusterID cs = g \<and> RespondedTo cs \<le> SeriesID cs \<longrightarrow>
      ValidForProposal cs g = Inr True)"
  by (auto simp: ValidForProposal_def session_consts)

theorem ValidForProposal_sentinels_witness:
  "ValidForProposal
     \<lparr>ClusterID = 1, ClientID = 42, SeriesID = 18446744073709551614, RespondedTo = 0\<rparr> 1
     = Inr False \<and>
   ValidForProposal
     \<lparr>ClusterID = 1, ClientID = 42, SeriesID = 18446744073709551615, RespondedTo = 0\<rparr> 1
     = Inr False \<and>
   ValidForProposal \<lparr>ClusterID = 1, ClientID = 0, SeriesID = 0, RespondedTo = 0\<rparr> 1
     = Inr False \<and>
   ValidForProposal \<lparr>ClusterID = 1, ClientID = 42, SeriesID = 0, RespondedTo = 0\<rparr> 1
     = Inr True \<and>
   ValidForProposal \<lparr>ClusterID = 1, ClientID = 42, SeriesID = 3, RespondedTo = 2\<rparr> 1
     = Inr True"
proof -
  have "(2::uint64) \<le> 3"
    by simp
  with
    ValidForProposal_sentinels
      [of "\<lparr>ClusterID = 1, ClientID = 42, SeriesID = 18446744073709551614,
            RespondedTo = 0\<rparr>" 1]
    ValidForProposal_sentinels
      [of "\<lparr>ClusterID = 1, ClientID = 42, SeriesID = 18446744073709551615,
            RespondedTo = 0\<rparr>" 1]
    ValidForProposal_sentinels
      [of "\<lparr>ClusterID = 1, ClientID = 0, SeriesID = 0, RespondedTo = 0\<rparr>" 1]
    ValidForProposal_sentinels
      [of "\<lparr>ClusterID = 1, ClientID = 42, SeriesID = 0, RespondedTo = 0\<rparr>" 1]
    ValidForProposal_sentinels
      [of "\<lparr>ClusterID = 1, ClientID = 42, SeriesID = 3, RespondedTo = 2\<rparr>" 1]
  show ?thesis
    by (simp add: session_consts)
qed

text \<open>C7. \<^verbatim>\<open>ValidForProposal\<close> never faults on a session with
  \<open>RespondedTo \<le> SeriesID\<close>: it returns a boolean. Its only fault is the one for
  \<open>RespondedTo > SeriesID\<close>, and it is raised whenever \<open>RespondedTo > SeriesID\<close> and the
  session passes the checks before it (not the NoOP session with the unmanaged client
  id, the cluster id matches, \<open>ClientID\<close> is not the unmanaged sentinel, \<open>SeriesID\<close> is
  neither the Register nor the Unregister sentinel).\<close>

theorem ValidForProposal_fault:
  "(session_inv cs \<longrightarrow> (\<exists>b. ValidForProposal cs g = Inr b)) \<and>
   (ValidForProposal cs g = Inl e \<longrightarrow>
      e = RespondedToGreaterThanSeriesID \<and> SeriesID cs < RespondedTo cs) \<and>
   (SeriesID cs < RespondedTo cs \<and>
    \<not> (SeriesID cs = NoOPSeriesID \<and> ClientID cs = NotSessionManagedClientID) \<and>
    ClusterID cs = g \<and> ClientID cs \<noteq> NotSessionManagedClientID \<and>
    SeriesID cs \<noteq> SeriesIDForRegister \<and> SeriesID cs \<noteq> SeriesIDForUnregister \<longrightarrow>
      ValidForProposal cs g = Inl RespondedToGreaterThanSeriesID)"
  by (auto simp: ValidForProposal_def session_inv_def split: if_splits)

theorem ValidForProposal_fault_witness:
  "session_inv \<lparr>ClusterID = 1, ClientID = 42, SeriesID = 3, RespondedTo = 2\<rparr> \<and>
   ValidForProposal \<lparr>ClusterID = 1, ClientID = 42, SeriesID = 3, RespondedTo = 2\<rparr> 1
     \<noteq> Inl RespondedToGreaterThanSeriesID \<and>
   ValidForProposal \<lparr>ClusterID = 1, ClientID = 42, SeriesID = 1, RespondedTo = 2\<rparr> 1
     = Inl RespondedToGreaterThanSeriesID"
proof -
  have inv: "session_inv \<lparr>ClusterID = 1, ClientID = 42, SeriesID = 3, RespondedTo = 2\<rparr>"
    by (simp add: session_inv_def)
  have lt: "(1::uint64) < 2"
    by simp
  from inv
    ValidForProposal_fault
      [of "\<lparr>ClusterID = 1, ClientID = 42, SeriesID = 3, RespondedTo = 2\<rparr>" 1]
  have "ValidForProposal \<lparr>ClusterID = 1, ClientID = 42, SeriesID = 3, RespondedTo = 2\<rparr> 1
     \<noteq> Inl RespondedToGreaterThanSeriesID"
    by auto
  moreover from lt
    ValidForProposal_fault
      [of "\<lparr>ClusterID = 1, ClientID = 42, SeriesID = 1, RespondedTo = 2\<rparr>" 1]
  have "ValidForProposal \<lparr>ClusterID = 1, ClientID = 42, SeriesID = 1, RespondedTo = 2\<rparr> 1
     = Inl RespondedToGreaterThanSeriesID"
    by (simp add: session_consts)
  ultimately show ?thesis using inv by simp
qed

text \<open>C8. \<^verbatim>\<open>ValidForSessionOp\<close> returns true only for a session whose \<open>SeriesID\<close> is
  the Register or the Unregister sentinel and whose cluster id is the argument; for
  any other \<open>SeriesID\<close>, or another cluster id, it returns false. Exactly: it returns
  true when, besides, \<open>ClientID\<close> is not the unmanaged sentinel.\<close>

theorem ValidForSessionOp_sentinels:
  "(ValidForSessionOp cs g \<longrightarrow>
      (SeriesID cs = SeriesIDForRegister \<or> SeriesID cs = SeriesIDForUnregister) \<and>
      ClusterID cs = g) \<and>
   ((SeriesID cs \<noteq> SeriesIDForRegister \<and> SeriesID cs \<noteq> SeriesIDForUnregister) \<or>
    ClusterID cs \<noteq> g \<longrightarrow> \<not> ValidForSessionOp cs g) \<and>
   ValidForSessionOp cs g =
     (ClusterID cs = g \<and> ClientID cs \<noteq> NotSessionManagedClientID \<and>
      (SeriesID cs = SeriesIDForRegister \<or> SeriesID cs = SeriesIDForUnregister))"
  by (auto simp: ValidForSessionOp_def session_consts)

theorem ValidForSessionOp_sentinels_witness:
  "ValidForSessionOp
     \<lparr>ClusterID = 1, ClientID = 42, SeriesID = 18446744073709551614, RespondedTo = 0\<rparr> 1 \<and>
   ValidForSessionOp
     \<lparr>ClusterID = 1, ClientID = 42, SeriesID = 18446744073709551615, RespondedTo = 0\<rparr> 1 \<and>
   \<not> ValidForSessionOp \<lparr>ClusterID = 1, ClientID = 42, SeriesID = 5, RespondedTo = 0\<rparr> 1 \<and>
   \<not> ValidForSessionOp
     \<lparr>ClusterID = 2, ClientID = 42, SeriesID = 18446744073709551614, RespondedTo = 0\<rparr> 1"
  using
    ValidForSessionOp_sentinels
      [of "\<lparr>ClusterID = 1, ClientID = 42, SeriesID = 18446744073709551614,
            RespondedTo = 0\<rparr>" 1]
    ValidForSessionOp_sentinels
      [of "\<lparr>ClusterID = 1, ClientID = 42, SeriesID = 18446744073709551615,
            RespondedTo = 0\<rparr>" 1]
    ValidForSessionOp_sentinels
      [of "\<lparr>ClusterID = 1, ClientID = 42, SeriesID = 5, RespondedTo = 0\<rparr>" 1]
    ValidForSessionOp_sentinels
      [of "\<lparr>ClusterID = 2, ClientID = 42, SeriesID = 18446744073709551614,
            RespondedTo = 0\<rparr>" 1]
  by (simp add: session_consts)

section \<open>Creating sessions\<close>

text \<open>C5, as the claim states it: \<^verbatim>\<open>NewSession\<close> returns a session for every
  random source. On the source that yields 0 at every draw the loop redraws for ever
  and no session is returned.\<close>

theorem NewSession_zero_source_counterexample:
  "NewSession 7 (const_source 0) () = None"
proof (cases "NewSession 7 (const_source 0) ()")
  case None
  then show ?thesis .
next
  case (Some y)
  from NewSession_Some_draw [OF this] show ?thesis
    by (simp add: draw_const_source)
qed

text \<open>C5, amended. For every cluster id and every random source that yields a value
  other than the unmanaged sentinel 0 at some draw, \<^verbatim>\<open>NewSession\<close> returns a session
  whose \<open>ClientID\<close> is not the unmanaged sentinel, whose \<open>ClusterID\<close> is the given one,
  whose \<open>SeriesID\<close> is the first value after the NoOP sentinel, 1 (the first-proposal
  value), and whose \<open>RespondedTo\<close> is 0. On a source that yields 0 at every draw it
  does not return.\<close>

theorem NewSession_result:
  "((\<exists>n. draw rng s n \<noteq> NotSessionManagedClientID) \<longrightarrow>
      (\<exists>a t. NewSession clusterID rng s = Some (a, t) \<and>
         ClientID a \<noteq> NotSessionManagedClientID \<and> ClusterID a = clusterID \<and>
         SeriesID a = NoOPSeriesID + 1 \<and> SeriesID a = SeriesIDFirstProposal \<and>
         RespondedTo a = 0)) \<and>
   ((\<forall>n. draw rng s n = NotSessionManagedClientID) \<longrightarrow>
      NewSession clusterID rng s = None)"
proof (intro conjI impI)
  assume "\<exists>n. draw rng s n \<noteq> NotSessionManagedClientID"
  then obtain n where "draw rng s n \<noteq> 0"
    by (auto simp: NotSessionManagedClientID_def)
  from NewSession_returns [OF this, of clusterID]
  show "\<exists>a t. NewSession clusterID rng s = Some (a, t) \<and>
         ClientID a \<noteq> NotSessionManagedClientID \<and> ClusterID a = clusterID \<and>
         SeriesID a = NoOPSeriesID + 1 \<and> SeriesID a = SeriesIDFirstProposal \<and>
         RespondedTo a = 0"
    by (auto simp: session_consts)
next
  assume zero: "\<forall>n. draw rng s n = NotSessionManagedClientID"
  show "NewSession clusterID rng s = None"
  proof (cases "NewSession clusterID rng s")
    case None
    then show ?thesis .
  next
    case (Some y)
    from NewSession_Some_draw [OF this] zero show ?thesis
      by (simp add: NotSessionManagedClientID_def)
  qed
qed

theorem NewSession_result_witness:
  "draw counter_source 0 1 \<noteq> NotSessionManagedClientID \<and>
   NewSession 7 counter_source 0 =
     Some (\<lparr>ClusterID = 7, ClientID = 1, SeriesID = 1, RespondedTo = 0\<rparr>, 2) \<and>
   draw (const_source 0) () 5 = NotSessionManagedClientID \<and>
   NewSession 7 (const_source 0) () = None"
proof -
  have d: "draw counter_source 0 1 \<noteq> NotSessionManagedClientID"
    by (simp add: draw_def counter_source_def NotSessionManagedClientID_def)
  then have "\<exists>n. draw counter_source 0 n \<noteq> NotSessionManagedClientID" ..
  with NewSession_result [of counter_source 0 7]
  obtain a t where "NewSession 7 counter_source 0 = Some (a, t)"
    by blast
  then have new: "NewSession 7 counter_source 0 =
     Some (\<lparr>ClusterID = 7, ClientID = 1, SeriesID = 1, RespondedTo = 0\<rparr>, 2)"
    by (simp add: NewSession.simps counter_source_def session_consts)
  have z: "\<forall>n. draw (const_source 0) () n = NotSessionManagedClientID"
    by (simp add: draw_const_source NotSessionManagedClientID_def)
  with NewSession_result [of "const_source 0" "()" 7]
  have "NewSession 7 (const_source 0) () = None"
    by blast
  with d new z show ?thesis by simp
qed

text \<open>C6. A session that \<^verbatim>\<open>NewNoOPSession\<close> returns has \<open>SeriesID\<close> equal to the NoOP
  sentinel 0, and it returns one whenever the source yields a non-zero value at some
  draw. \<^verbatim>\<open>IsNoOPSession\<close> is true exactly of the sessions whose \<open>SeriesID\<close> is the
  NoOP sentinel: of every session \<^verbatim>\<open>NewNoOPSession\<close> returns, and of no session
  \<^verbatim>\<open>NewSession\<close> returns.\<close>

theorem IsNoOPSession_constructors:
  "(IsNoOPSession cs = (SeriesID cs = NoOPSeriesID)) \<and>
   (NewNoOPSession clusterID rng s = Some (a, t) \<longrightarrow>
      SeriesID a = NoOPSeriesID \<and> IsNoOPSession a) \<and>
   (NewSession clusterID rng s = Some (b, t') \<longrightarrow> \<not> IsNoOPSession b) \<and>
   ((\<exists>n. draw rng s n \<noteq> NotSessionManagedClientID) \<longrightarrow>
      (\<exists>a t. NewNoOPSession clusterID rng s = Some (a, t) \<and>
         SeriesID a = NoOPSeriesID \<and> IsNoOPSession a))"
proof (intro conjI impI)
  show "IsNoOPSession cs = (SeriesID cs = NoOPSeriesID)"
    by (simp add: IsNoOPSession_def)
next
  assume "NewNoOPSession clusterID rng s = Some (a, t)"
  from NewNoOPSession_fields [OF this]
  show "SeriesID a = NoOPSeriesID" and "IsNoOPSession a"
    by (simp_all add: IsNoOPSession_def NoOPSeriesID_def)
next
  assume "NewSession clusterID rng s = Some (b, t')"
  from NewSession_fields [OF this] show "\<not> IsNoOPSession b"
    by (simp add: IsNoOPSession_def NoOPSeriesID_def)
next
  assume "\<exists>n. draw rng s n \<noteq> NotSessionManagedClientID"
  then obtain n where "draw rng s n \<noteq> 0"
    by (auto simp: NotSessionManagedClientID_def)
  from NewNoOPSession_returns [OF this, of clusterID]
  show "\<exists>a t. NewNoOPSession clusterID rng s = Some (a, t) \<and>
         SeriesID a = NoOPSeriesID \<and> IsNoOPSession a"
    by (auto simp: IsNoOPSession_def NoOPSeriesID_def)
qed

theorem IsNoOPSession_constructors_witness:
  "NewNoOPSession 7 counter_source 0 =
     Some (\<lparr>ClusterID = 7, ClientID = 1, SeriesID = 0, RespondedTo = 0\<rparr>, 2) \<and>
   IsNoOPSession \<lparr>ClusterID = 7, ClientID = 1, SeriesID = 0, RespondedTo = 0\<rparr> \<and>
   NewSession 7 counter_source 0 =
     Some (\<lparr>ClusterID = 7, ClientID = 1, SeriesID = 1, RespondedTo = 0\<rparr>, 2) \<and>
   \<not> IsNoOPSession \<lparr>ClusterID = 7, ClientID = 1, SeriesID = 1, RespondedTo = 0\<rparr>"
proof -
  have noop: "NewNoOPSession 7 counter_source 0 =
     Some (\<lparr>ClusterID = 7, ClientID = 1, SeriesID = 0, RespondedTo = 0\<rparr>, 2)"
    by (simp add: NewNoOPSession.simps counter_source_def session_consts)
  have new: "NewSession 7 counter_source 0 =
     Some (\<lparr>ClusterID = 7, ClientID = 1, SeriesID = 1, RespondedTo = 0\<rparr>, 2)"
    by (simp add: NewSession.simps counter_source_def session_consts)
  from noop new
    IsNoOPSession_constructors
      [where clusterID = 7 and rng = counter_source and s = 0 and t = 2 and t' = 2
        and a = "\<lparr>ClusterID = 7, ClientID = 1, SeriesID = 0, RespondedTo = 0\<rparr>"
        and b = "\<lparr>ClusterID = 7, ClientID = 1, SeriesID = 1, RespondedTo = 0\<rparr>"]
  show ?thesis by simp
qed

text \<open>C10. For every cluster id and every random source, a session that
  \<^verbatim>\<open>NewNoOPSession\<close> returns has a \<open>ClientID\<close> other than the unmanaged sentinel 0:
  it is the first non-zero value the source yields, every draw before it having been
  the sentinel, and the session has \<open>SeriesID\<close> equal to the NoOP sentinel, the given
  cluster id and \<open>RespondedTo = 0\<close>. One is returned whenever the source yields a
  non-zero value at some draw. \<^verbatim>\<open>IsNoOPSession\<close> holds exactly when \<open>SeriesID\<close> is the
  NoOP sentinel, so it depends on \<open>SeriesID\<close> alone: two sessions with the same
  \<open>SeriesID\<close> agree on it, whatever their \<open>ClientID\<close>.\<close>

theorem NewNoOPSession_ClientID:
  "(NewNoOPSession clusterID rng s = Some (a, t) \<longrightarrow>
      ClientID a \<noteq> NotSessionManagedClientID \<and> SeriesID a = NoOPSeriesID \<and>
      IsNoOPSession a \<and>
      (\<exists>k. draw rng s k \<noteq> NotSessionManagedClientID \<and>
           (\<forall>m<k. draw rng s m = NotSessionManagedClientID) \<and>
           a = \<lparr>ClusterID = clusterID, ClientID = draw rng s k,
                 SeriesID = NoOPSeriesID, RespondedTo = 0\<rparr> \<and>
           t = after_draws rng s (Suc k))) \<and>
   ((\<exists>n. draw rng s n \<noteq> NotSessionManagedClientID) \<longrightarrow>
      (\<exists>a t. NewNoOPSession clusterID rng s = Some (a, t) \<and>
         ClientID a \<noteq> NotSessionManagedClientID \<and> SeriesID a = NoOPSeriesID)) \<and>
   IsNoOPSession x = (SeriesID x = NoOPSeriesID) \<and>
   (SeriesID x = SeriesID y \<longrightarrow> IsNoOPSession x = IsNoOPSession y) \<and>
   IsNoOPSession (x\<lparr>ClientID := cid\<rparr>) = IsNoOPSession x"
proof (intro conjI impI)
  assume ret: "NewNoOPSession clusterID rng s = Some (a, t)"
  from NewNoOPSession_fields [OF ret]
  show "ClientID a \<noteq> NotSessionManagedClientID" and "SeriesID a = NoOPSeriesID"
    and "IsNoOPSession a"
    by (simp_all add: IsNoOPSession_def session_consts)
  from NewNoOPSession_Some_draw [OF ret] obtain n where "draw rng s n \<noteq> 0" ..
  then obtain k where k: "draw rng s k \<noteq> 0" "\<forall>m<k. draw rng s m = 0"
    by (rule first_nonzero_draw)
  from NewNoOPSession_first [OF k, of clusterID] ret
  have "a = \<lparr>ClusterID = clusterID, ClientID = draw rng s k,
              SeriesID = NoOPSeriesID, RespondedTo = 0\<rparr>"
    and "t = after_draws rng s (Suc k)"
    by (simp_all add: NoOPSeriesID_def)
  with k
  show "\<exists>k. draw rng s k \<noteq> NotSessionManagedClientID \<and>
           (\<forall>m<k. draw rng s m = NotSessionManagedClientID) \<and>
           a = \<lparr>ClusterID = clusterID, ClientID = draw rng s k,
                 SeriesID = NoOPSeriesID, RespondedTo = 0\<rparr> \<and>
           t = after_draws rng s (Suc k)"
    unfolding NotSessionManagedClientID_def by blast
next
  assume "\<exists>n. draw rng s n \<noteq> NotSessionManagedClientID"
  then obtain n where "draw rng s n \<noteq> 0"
    by (auto simp: NotSessionManagedClientID_def)
  from NewNoOPSession_returns [OF this, of clusterID]
  show "\<exists>a t. NewNoOPSession clusterID rng s = Some (a, t) \<and>
         ClientID a \<noteq> NotSessionManagedClientID \<and> SeriesID a = NoOPSeriesID"
    by (auto simp: session_consts)
next
  show "IsNoOPSession x = (SeriesID x = NoOPSeriesID)"
    by (simp add: IsNoOPSession_def)
next
  assume "SeriesID x = SeriesID y"
  then show "IsNoOPSession x = IsNoOPSession y"
    by (simp add: IsNoOPSession_def)
next
  show "IsNoOPSession (x\<lparr>ClientID := cid\<rparr>) = IsNoOPSession x"
    by (simp add: IsNoOPSession_def)
qed

theorem NewNoOPSession_ClientID_witness:
  "draw counter_source 0 0 = 0 \<and> draw counter_source 0 1 = 1 \<and>
   NewNoOPSession 7 counter_source 0 =
     Some (\<lparr>ClusterID = 7, ClientID = 1, SeriesID = 0, RespondedTo = 0\<rparr>, 2) \<and>
   ClientID \<lparr>ClusterID = 7, ClientID = 1, SeriesID = 0, RespondedTo = 0\<rparr>
     \<noteq> NotSessionManagedClientID \<and>
   IsNoOPSession \<lparr>ClusterID = 7, ClientID = 1, SeriesID = 0, RespondedTo = 0\<rparr> \<and>
   IsNoOPSession \<lparr>ClusterID = 7, ClientID = 0, SeriesID = 0, RespondedTo = 0\<rparr> \<and>
   \<not> IsNoOPSession \<lparr>ClusterID = 7, ClientID = 1, SeriesID = 5, RespondedTo = 0\<rparr>"
proof -
  let ?a = "\<lparr>ClusterID = 7, ClientID = 1, SeriesID = 0, RespondedTo = 0\<rparr>"
  let ?b = "\<lparr>ClusterID = 7, ClientID = 0, SeriesID = 0, RespondedTo = 0\<rparr>"
  let ?c = "\<lparr>ClusterID = 7, ClientID = 1, SeriesID = 5, RespondedTo = 0\<rparr>"
  have d: "draw counter_source 0 0 = 0" "draw counter_source 0 1 = 1"
    by (simp_all add: draw_def counter_source_def)
  then have "\<exists>n. draw counter_source 0 n \<noteq> NotSessionManagedClientID"
    by (auto simp: NotSessionManagedClientID_def intro: exI [of _ 1])
  with NewNoOPSession_ClientID [where clusterID = 7 and rng = counter_source and s = 0]
  obtain a' t' where "NewNoOPSession 7 counter_source 0 = Some (a', t')"
    by blast
  then have noop: "NewNoOPSession 7 counter_source 0 = Some (?a, 2)"
    by (simp add: NewNoOPSession.simps counter_source_def session_consts)
  note res = NewNoOPSession_ClientID [THEN conjunct1, rule_format, OF noop]
  note iff = NewNoOPSession_ClientID [THEN conjunct2, THEN conjunct2, THEN conjunct1]
  from res have "ClientID ?a \<noteq> NotSessionManagedClientID" and "IsNoOPSession ?a"
    by blast+
  moreover have "IsNoOPSession ?b" and "\<not> IsNoOPSession ?c"
    by (simp_all add: iff NoOPSeriesID_def)
  ultimately show ?thesis using noop d by simp
qed

section \<open>Snapshots\<close>

text \<open>The state machines behind \<^verbatim>\<open>SaveSnapshotDBRegularStateMachine\<close> and
  \<^verbatim>\<open>RecoverFromSnapshotDBRegularStateMachine\<close> are declared in a C header only; the
  functions themselves, and the application state machine they call, are not part of
  the sources modelled here.\<close>

end
